theory Spec2Isabelle
  imports Main "HOL-Library.Word" "HOL-Library.Sublist"
begin

section \<open>The Sci-Hub downloader of \<^verbatim>\<open>paperdownload.py\<close>\<close>

text \<open>
  The program is a single class, \<^verbatim>\<open>SciHubDownloader\<close>. Its pure methods
  (\<^verbatim>\<open>ensure_scheme\<close>, \<^verbatim>\<open>sanitize_filename\<close>) become HOL functions on strings.
  Python strings are modelled as \<^typ>\<open>string\<close>: a \<^typ>\<open>char\<close> stands for a code point
  below 256. Bytes are 8-bit words.
\<close>

type_synonym byte = "8 word"

subsection \<open>Pure string helpers\<close>

text \<open>\<^verbatim>\<open>s.startswith(p)\<close>, by recursion on the prefix \<open>p\<close>.\<close>

fun startswith :: "string \<Rightarrow> string \<Rightarrow> bool" where
  "startswith s [] = True"
| "startswith [] (p # ps) = False"
| "startswith (c # cs) (p # ps) = (c = p \<and> startswith cs ps)"

text \<open>
  \<^verbatim>\<open>
  def ensure_scheme(self, url):
      if not url.startswith('http'):
          return 'https:' + url
      return url
  \<close>
\<close>

definition ensure_scheme :: "string \<Rightarrow> string" where
  "ensure_scheme url = (if \<not> startswith url ''http'' then ''https:'' @ url else url)"

text \<open>
  \<^verbatim>\<open>
  def sanitize_filename(self, doi):
      return re.sub(r'[\/:*?"<>|]', '_', doi) + ".pdf"
  \<close>
  The pattern is one character class. Inside a class the regular-expression escape
  \<^verbatim>\<open>\/\<close> denotes the slash alone, so the class holds eight characters:
  \<^verbatim>\<open>/ : * ? " < > |\<close>. Every match is one character and is replaced by an underscore,
  which makes \<^verbatim>\<open>re.sub\<close> a character-wise map.
\<close>

definition class_chars :: "char list" where
  "class_chars =
     [CHR ''/'', CHR '':'', CHR ''*'', CHR ''?'', CHR 0x22, CHR ''<'', CHR ''>'', CHR ''|'']"

definition re_sub_class :: "string \<Rightarrow> string" where
  "re_sub_class s = map (\<lambda>c. if c \<in> set class_chars then CHR ''_'' else c) s"

definition sanitize_filename :: "string \<Rightarrow> string" where
  "sanitize_filename doi = re_sub_class doi @ ''.pdf''"

subsection \<open>Reading the identifier list\<close>

text \<open>
  \<^verbatim>\<open>
  def load_doi_list(self):
      with open(self.doi_list_file, 'r') as f:
          return [doi.strip() for doi in f.readlines()]
  \<close>
  The file is opened in text mode; its decoded text (after newline translation) is the
  input of the model. \<^verbatim>\<open>readlines\<close> cuts the text after every line feed and keeps the
  line feed; a last line without one is kept as it is. \<^verbatim>\<open>strip()\<close> removes the
  white space of \<^verbatim>\<open>str.isspace\<close> from both ends.
\<close>

definition LF :: char where
  "LF = CHR 0x0A"

fun readlines_from :: "string \<Rightarrow> string \<Rightarrow> string list" where
  "readlines_from cur [] = (if cur = [] then [] else [cur])"
| "readlines_from cur (c # cs) =
     (if c = LF then (cur @ [c]) # readlines_from [] cs else readlines_from (cur @ [c]) cs)"

definition readlines :: "string \<Rightarrow> string list" where
  "readlines text = readlines_from [] text"

text \<open>The code points below 256 for which \<^verbatim>\<open>str.isspace\<close> holds.\<close>

definition isspace :: "char \<Rightarrow> bool" where
  "isspace c = (of_char c \<in> set [9, 10, 11, 12, 13, 28, 29, 30, 31, 32, 133, 160 :: nat])"

definition lstrip :: "string \<Rightarrow> string" where
  "lstrip s = dropWhile isspace s"

definition rstrip :: "string \<Rightarrow> string" where
  "rstrip s = rev (dropWhile isspace (rev s))"

definition strip :: "string \<Rightarrow> string" where
  "strip s = rstrip (lstrip s)"

datatype exn_class = KeyError | ValueError | OverflowError | OtherException string

text \<open>
  An exception value: its class and the text \<^verbatim>\<open>str(e)\<close>. Only instances of
  \<^verbatim>\<open>Exception\<close> are modelled; an interrupt from outside the program is not a value of
  this type.
\<close>

datatype exn = Exn (exn_class: exn_class) (exn_text: string)

text \<open>
  Opening the list file either fails (the exception leaves \<^verbatim>\<open>load_doi_list\<close>, nothing
  catches it) or gives the text of the file.
\<close>

definition load_doi_list :: "(string \<Rightarrow> exn + string) \<Rightarrow> string \<Rightarrow> exn + string list" where
  "load_doi_list open_r doi_list_file =
     (case open_r doi_list_file of
        Inl e \<Rightarrow> Inl e
      | Inr text \<Rightarrow> Inr (map strip (readlines text)))"

text \<open>
  An example file system for the list: \<^verbatim>\<open>doi_list.txt\<close> holds two identifiers with an
  empty line between them, and no other file exists.
\<close>

definition example_list_text :: string where
  "example_list_text = ''10.1000/xyz123'' @ [LF, LF] @ ''  10.1000/abc456 '' @ [LF]"

definition example_open_r :: "string \<Rightarrow> exn + string" where
  "example_open_r path =
     (if path = ''doi_list.txt'' then Inr example_list_text
      else Inl (Exn (OtherException ''FileNotFoundError'') ''No such file or directory''))"

subsection \<open>Writing the streamed body\<close>

text \<open>
  \<^verbatim>\<open>
  for chunk in response.iter_content(chunk_size=chunk_size):
      if chunk:
          file.write(chunk)
          pbar.update(len(chunk))
  \<close>
  The loop over the chunks, with the bytes written so far as its state. The progress bar
  is a display on standard error and is left out.
\<close>

fun write_chunks :: "byte list list \<Rightarrow> byte list \<Rightarrow> byte list" where
  "write_chunks [] file = file"
| "write_chunks (chunk # chunks) file =
     (if chunk \<noteq> [] then write_chunks chunks (file @ chunk) else write_chunks chunks file)"

subsection \<open>Decimal rendering of integers in messages\<close>

fun str_nat :: "nat \<Rightarrow> string" where
  "str_nat n =
     (if n < 10 then [char_of (48 + n)] else str_nat (n div 10) @ [char_of (48 + n mod 10)])"

declare str_nat.simps [simp del]

definition str_int :: "int \<Rightarrow> string" where
  "str_int i = (if i < 0 then ''-'' @ str_nat (nat (- i)) else str_nat (nat i))"

subsection \<open>The outside world\<close>

text \<open>
  A response of the HTTP library as the program reads it: the status code, the body read
  at once (\<^verbatim>\<open>req.content\<close>), the headers (keys in lower case, as the library's
  case-insensitive lookup sees them), and the body as \<^verbatim>\<open>iter_content(1024)\<close> yields it:
  the chunks in order and, when the stream breaks, the exception raised after them.
\<close>

record response =
  status_code :: int
  content :: "byte list"
  headers :: "string \<Rightarrow> string option"
  body_chunks :: "byte list list"
  body_error :: "exn option"

text \<open>
  What the program changes: the lines printed on standard output, the text appended to
  \<^verbatim>\<open>errlog.txt\<close>, the files written, and the URLs requested so far. Printing is taken
  to succeed, and so is writing to a file once it is open; opening a file can fail.
\<close>

record world =
  stdout :: "string list"
  errlog :: string
  files :: "string \<Rightarrow> byte list option"
  requested :: "string list"

text \<open>
  The libraries and builtins the program calls, which are not part of the repository, are
  parameters of the model:
  \<^item> \<open>http_get k url\<close>: the result of the \<open>k\<close>-th GET of the run through the session
    (after the retries of the mounted adapter, and with the proxy settings): an exception
    or a response. The index lets the same URL answer differently at different times.
  \<^item> \<open>etree_HTML\<close>: \<^verbatim>\<open>etree.HTML\<close>, which raises, returns \<^verbatim>\<open>None\<close> or returns a document.
  \<^item> \<open>xpath_eval\<close>: \<^verbatim>\<open>root.xpath(expr)\<close>; the query is taken to select attribute values, as
    the default one does, so the result is a list of strings.
  \<^item> \<open>py_int\<close>: the builtin \<^verbatim>\<open>int\<close> on a string: the integer, or the text of the
    \<^verbatim>\<open>ValueError\<close> it raises.
  \<^item> \<open>fmt_kb n\<close>: the text of \<^verbatim>\<open>{n/1024:.2f}\<close>, or the text of the \<^verbatim>\<open>OverflowError\<close>
    of the float division.
  \<^item> \<open>open_wb\<close>: whether \<^verbatim>\<open>open(path, "wb")\<close> raises.
  \<^item> \<open>open_a\<close>: whether \<^verbatim>\<open>open(path, "a")\<close> raises.
  \<^item> \<open>path_join\<close>: \<^verbatim>\<open>os.path.join\<close>.
\<close>

record 'doc lib =
  http_get :: "nat \<Rightarrow> string \<Rightarrow> exn + response"
  etree_HTML :: "byte list \<Rightarrow> exn + 'doc option"
  xpath_eval :: "'doc \<Rightarrow> string \<Rightarrow> exn + string list"
  py_int :: "string \<Rightarrow> string + int"
  fmt_kb :: "int \<Rightarrow> string + string"
  open_wb :: "string \<Rightarrow> exn option"
  open_a :: "string \<Rightarrow> exn option"
  path_join :: "string \<Rightarrow> string \<Rightarrow> string"

text \<open>The fields of \<^verbatim>\<open>self\<close> that the download reads.\<close>

record downloader =
  download_path :: string
  xpath :: string
  scihub_urls :: "string list"
  doilist :: "string list"

definition print :: "world \<Rightarrow> string \<Rightarrow> world" where
  "print w line = w\<lparr>stdout := stdout w @ [line]\<rparr>"

definition session_get :: "'doc lib \<Rightarrow> world \<Rightarrow> string \<Rightarrow> (exn + response) \<times> world" where
  "session_get L w url =
     (http_get L (length (requested w)) url, w\<lparr>requested := requested w @ [url]\<rparr>)"

subsection \<open>The size of the file\<close>

text \<open>
  \<^verbatim>\<open>
  def get_file_size(self, req_file, index, total):
      try:
          content_length = int(req_file.headers['content-length'])
          print(f"Downloading paper {index+1}/{total}, size: {content_length/1024:.2f} KB")
          return content_length
      except KeyError:
          print(f"Downloading paper {index+1}/{total}, size: unknown")
          return None
  \<close>
  The result is the world after the printing, and either the exception that leaves the
  method or its return value (\<open>None\<close> for Python's \<^verbatim>\<open>None\<close>); \<open>total_count\<close> is the
  parameter \<^verbatim>\<open>total\<close>. The only \<^verbatim>\<open>KeyError\<close> of
  the \<^verbatim>\<open>try\<close> block is the one of the missing header.
\<close>

definition get_file_size ::
  "'doc lib \<Rightarrow> response \<Rightarrow> nat \<Rightarrow> nat \<Rightarrow> world \<Rightarrow> world \<times> (exn + int option)" where
  "get_file_size L req_file index total_count w =
     (case headers req_file ''content-length'' of
        None \<Rightarrow>
          (print w (''Downloading paper '' @ str_nat (index + 1) @ ''/'' @ str_nat total_count
                    @ '', size: unknown''),
           Inr None)
      | Some v \<Rightarrow>
          (case py_int L v of
             Inl msg \<Rightarrow> (w, Inl (Exn ValueError msg))
           | Inr content_length \<Rightarrow>
               (case fmt_kb L content_length of
                  Inl msg \<Rightarrow> (w, Inl (Exn OverflowError msg))
                | Inr kb \<Rightarrow>
                    (print w (''Downloading paper '' @ str_nat (index + 1) @ ''/''
                              @ str_nat total_count @ '', size: '' @ kb @ '' KB''),
                     Inr (Some content_length)))))"

subsection \<open>One mirror\<close>

text \<open>
  The \<^verbatim>\<open>with\<close> block of \<^verbatim>\<open>download\<close>: the file is opened for writing (created or
  truncated), the chunks are written, and an exception of the stream leaves the block
  with the bytes written so far on disk.
\<close>

definition save_body :: "'doc lib \<Rightarrow> downloader \<Rightarrow> string \<Rightarrow> response \<Rightarrow> world \<Rightarrow> world \<times> exn option" where
  "save_body L self file_name response w =
     (let file_path = path_join L (download_path self) file_name in
      case open_wb L file_path of
        Some e \<Rightarrow> (w, Some e)
      | None \<Rightarrow>
          (w\<lparr>files := (files w)(file_path \<mapsto> write_chunks (body_chunks response) [])\<rparr>,
           body_error response))"

text \<open>How the body of the \<^verbatim>\<open>try\<close> statement ends when it raises nothing.\<close>

datatype flow = Continue | Return

text \<open>
  \<^verbatim>\<open>
  def download(self, index, doi):
      for scihub_url in self.scihub_urls:
          try:
              req = self.session.get(url=scihub_url + doi, proxies=self.proxy)
              if req.status_code != 200:
                  print(f"Error downloading {doi}: Failed to fetch the webpage from {scihub_url}, status code: {req.status_code}")
                  continue
              root = etree.HTML(req.content)
              if root is None:
                  print(f"Error downloading {doi}: Failed to parse HTML content")
                  return
              element_download_link = root.xpath(self.xpath)
              if not element_download_link:
                  print(f"Error downloading {doi}: No download link found")
                  return
              element_download_link = self.ensure_scheme(element_download_link[0])
              req_file = self.session.get(url=element_download_link, stream=True, proxies=self.proxy)
              if req_file.status_code != 200:
                  print(f"Error downloading {doi}: Failed to retrieve file, status code: {req_file.status_code}")
                  return
              content_length = self.get_file_size(req_file, index, len(self.doilist))
              file_name = self.sanitize_filename(doi)
              with closing(req_file) as response:
                  chunk_size = 1024
                  file_path = os.path.join(self.download_path, file_name)
                  with open(file_path, "wb") as file:
                      with tqdm(total=content_length, ...) as pbar:
                          for chunk in response.iter_content(chunk_size=chunk_size):
                              ...
              print(f"Downloaded {file_name} successfully!")
              return
          except Exception as e:
              ...
      print(f"Failed to download {doi} after trying all Sci-Hub URLs.")
  \<close>
  The body of the \<^verbatim>\<open>try\<close> statement for one mirror gives the world it leaves, and
  either the exception raised in it or the way it ends.
\<close>

definition try_body ::
  "'doc lib \<Rightarrow> downloader \<Rightarrow> nat \<Rightarrow> string \<Rightarrow> string \<Rightarrow> world \<Rightarrow> world \<times> (exn + flow)" where
  "try_body L self index doi scihub_url w =
     (case session_get L w (scihub_url @ doi) of
        (Inl e, w1) \<Rightarrow> (w1, Inl e)
      | (Inr req, w1) \<Rightarrow>
          if status_code req \<noteq> 200 then
            (print w1 (''Error downloading '' @ doi @ '': Failed to fetch the webpage from ''
                       @ scihub_url @ '', status code: '' @ str_int (status_code req)),
             Inr Continue)
          else
            (case etree_HTML L (content req) of
               Inl e \<Rightarrow> (w1, Inl e)
             | Inr None \<Rightarrow>
                 (print w1 (''Error downloading '' @ doi @ '': Failed to parse HTML content''),
                  Inr Return)
             | Inr (Some root) \<Rightarrow>
                 (case xpath_eval L root (xpath self) of
                    Inl e \<Rightarrow> (w1, Inl e)
                  | Inr [] \<Rightarrow>
                      (print w1 (''Error downloading '' @ doi @ '': No download link found''),
                       Inr Return)
                  | Inr (link0 # _) \<Rightarrow>
                      (case session_get L w1 (ensure_scheme link0) of
                         (Inl e, w2) \<Rightarrow> (w2, Inl e)
                       | (Inr req_file, w2) \<Rightarrow>
                           if status_code req_file \<noteq> 200 then
                             (print w2 (''Error downloading '' @ doi
                                        @ '': Failed to retrieve file, status code: ''
                                        @ str_int (status_code req_file)),
                              Inr Return)
                           else
                             (case get_file_size L req_file index (length (doilist self)) w2 of
                                (w3, Inl e) \<Rightarrow> (w3, Inl e)
                              | (w3, Inr content_length) \<Rightarrow>
                                  (let file_name = sanitize_filename doi in
                                   case save_body L self file_name req_file w3 of
                                     (w4, Some e) \<Rightarrow> (w4, Inl e)
                                   | (w4, None) \<Rightarrow>
                                       (print w4 (''Downloaded '' @ file_name
                                                  @ '' successfully!''),
                                        Inr Return)))))))"

text \<open>
  \<^verbatim>\<open>
  except Exception as e:
      print(f"Error downloading {doi} from {scihub_url}: {str(e)}")
      with open("errlog.txt", "a") as err_log:
          err_log.write(f"{doi} from {scihub_url} - {str(e)}\n")
  \<close>
  The handler runs outside any \<^verbatim>\<open>try\<close> statement: when the log cannot be opened, the
  exception of \<^verbatim>\<open>open\<close> leaves \<^verbatim>\<open>download\<close>, after the line has been printed. The
  result is the world and the exception that leaves the handler, if any.
\<close>

definition except_handler ::
  "'doc lib \<Rightarrow> string \<Rightarrow> string \<Rightarrow> exn \<Rightarrow> world \<Rightarrow> world \<times> exn option" where
  "except_handler L doi scihub_url e w =
     (let w1 = print w (''Error downloading '' @ doi @ '' from '' @ scihub_url @ '': ''
                        @ exn_text e) in
      case open_a L ''errlog.txt'' of
        Some e' \<Rightarrow> (w1, Some e')
      | None \<Rightarrow>
          (w1\<lparr>errlog := errlog w1 @ doi @ '' from '' @ scihub_url @ '' - '' @ exn_text e @ [LF]\<rparr>,
           None))"

subsection \<open>The loop over the mirrors and the batch\<close>

definition exhausted_line :: "string \<Rightarrow> string" where
  "exhausted_line doi = ''Failed to download '' @ doi @ '' after trying all Sci-Hub URLs.''"

text \<open>
  The \<^verbatim>\<open>for\<close> loop of \<^verbatim>\<open>download\<close> over the mirrors still to try. \<^verbatim>\<open>continue\<close> and a
  handled exception go on with the next mirror, \<^verbatim>\<open>return\<close> leaves the method, and the
  statement after the loop prints the last message. The result is the world and the
  exception that leaves \<^verbatim>\<open>download\<close>, if any: only the handler can raise one.
\<close>

fun download_loop ::
  "'doc lib \<Rightarrow> downloader \<Rightarrow> nat \<Rightarrow> string \<Rightarrow> string list \<Rightarrow> world \<Rightarrow> world \<times> exn option" where
  "download_loop L self index doi [] w = (print w (exhausted_line doi), None)"
| "download_loop L self index doi (scihub_url # urls) w =
     (case try_body L self index doi scihub_url w of
        (w', Inr Return) \<Rightarrow> (w', None)
      | (w', Inr Continue) \<Rightarrow> download_loop L self index doi urls w'
      | (w', Inl e) \<Rightarrow>
          (case except_handler L doi scihub_url e w' of
             (w'', Some e') \<Rightarrow> (w'', Some e')
           | (w'', None) \<Rightarrow> download_loop L self index doi urls w''))"

definition download :: "'doc lib \<Rightarrow> downloader \<Rightarrow> nat \<Rightarrow> string \<Rightarrow> world \<Rightarrow> world \<times> exn option" where
  "download L self index doi w = download_loop L self index doi (scihub_urls self) w"

text \<open>
  \<^verbatim>\<open>
  def run(self):
      for index, doi in enumerate(self.doilist):
          print(f"Starting download for DOI: {doi}")
          self.download(index, doi)
  \<close>
  An exception that leaves \<^verbatim>\<open>download\<close> leaves \<^verbatim>\<open>run\<close> too and ends the batch.
\<close>

fun run_loop ::
  "'doc lib \<Rightarrow> downloader \<Rightarrow> nat \<Rightarrow> string list \<Rightarrow> world \<Rightarrow> world \<times> exn option" where
  "run_loop L self index [] w = (w, None)"
| "run_loop L self index (doi # dois) w =
     (case download L self index doi (print w (''Starting download for DOI: '' @ doi)) of
        (w', Some e) \<Rightarrow> (w', Some e)
      | (w', None) \<Rightarrow> run_loop L self (index + 1) dois w')"

definition run :: "'doc lib \<Rightarrow> downloader \<Rightarrow> world \<Rightarrow> world \<times> exn option" where
  "run L self w = run_loop L self 0 (doilist self) w"

subsection \<open>Observations on a download\<close>

text \<open>
  Whether the loop over the mirrors runs to its end from world \<open>w\<close>, that is, no
  \<^verbatim>\<open>return\<close> fires and no exception leaves: every mirror ends its \<^verbatim>\<open>try\<close> body by
  \<^verbatim>\<open>continue\<close> or by an exception that the handler catches and logs.
\<close>

fun loop_completes :: "'doc lib \<Rightarrow> downloader \<Rightarrow> nat \<Rightarrow> string \<Rightarrow> string list \<Rightarrow> world \<Rightarrow> bool" where
  "loop_completes L self index doi [] w = True"
| "loop_completes L self index doi (scihub_url # urls) w =
     (case try_body L self index doi scihub_url w of
        (w', Inr Return) \<Rightarrow> False
      | (w', Inr Continue) \<Rightarrow> loop_completes L self index doi urls w'
      | (w', Inl e) \<Rightarrow>
          (case except_handler L doi scihub_url e w' of
             (w'', Some e') \<Rightarrow> False
           | (w'', None) \<Rightarrow> loop_completes L self index doi urls w''))"

text \<open>
  The condition the specification names for that: the first GET of every mirror returns
  a response whose status is not 200.
\<close>

fun every_page_fetch_non200 :: "'doc lib \<Rightarrow> downloader \<Rightarrow> nat \<Rightarrow> string \<Rightarrow> string list \<Rightarrow> world \<Rightarrow> bool" where
  "every_page_fetch_non200 L self index doi [] w = True"
| "every_page_fetch_non200 L self index doi (scihub_url # urls) w =
     (case fst (session_get L w (scihub_url @ doi)) of
        Inl e \<Rightarrow> False
      | Inr req \<Rightarrow>
          status_code req \<noteq> 200 \<and>
          every_page_fetch_non200 L self index doi urls
            (fst (try_body L self index doi scihub_url w)))"

text \<open>The lines that \<^verbatim>\<open>run\<close> prints when it starts an identifier.\<close>

definition is_start_line :: "string \<Rightarrow> bool" where
  "is_start_line l = startswith l ''Starting download for DOI: ''"

subsection \<open>An example environment\<close>

text \<open>
  A small network for concrete runs. The two mirrors are the defaults of the
  constructor. Documents are the page bodies themselves; a page body of one byte stands
  for what the query finds in it.
  \<^item> \<^verbatim>\<open>10.1000/xyz123\<close>: found on the first mirror, the link is protocol-relative, the
    file has five bytes in three chunks, one of them empty.
  \<^item> \<^verbatim>\<open>10.1000/abc456\<close>: the page has no embedded link.
  \<^item> \<^verbatim>\<open>10.1000/blank\<close>: the page does not parse.
  \<^item> \<^verbatim>\<open>10.1000/gone\<close>: the page has a link and the file answers 404.
  \<^item> \<^verbatim>\<open>10.1000/down\<close>: the first mirror answers 503 and the second 404.
  \<^item> \<^verbatim>\<open>10.1000/badlen\<close>: the file of the first mirror has a content length that is no
    number; the second mirror answers 404.
  \<^item> any other URL: the connection fails.

  Every file can be opened. In the second environment \<^verbatim>\<open>errlog.txt\<close> is a directory, so
  that opening it for appending fails; all else is as in the first.
\<close>

definition example_page :: "byte list \<Rightarrow> response" where
  "example_page body =
     \<lparr>status_code = 200, content = body, headers = (\<lambda>k. None), body_chunks = [body],
      body_error = None\<rparr>"

definition example_status :: "int \<Rightarrow> response" where
  "example_status code =
     \<lparr>status_code = code, content = [], headers = (\<lambda>k. None), body_chunks = [],
      body_error = None\<rparr>"

definition example_file :: "string \<Rightarrow> byte list list \<Rightarrow> response" where
  "example_file len chunks =
     \<lparr>status_code = 200, content = concat chunks,
      headers = (\<lambda>k. if k = ''content-length'' then Some len else None),
      body_chunks = chunks, body_error = None\<rparr>"

definition example_http_get :: "nat \<Rightarrow> string \<Rightarrow> exn + response" where
  "example_http_get k url =
     (if url = ''https://sci-hub.se/10.1000/xyz123'' then Inr (example_page [1])
      else if url = ''https://cdn.example/xyz123.pdf''
        then Inr (example_file ''5'' [[37, 80], [], [68, 70, 10]])
      else if url = ''https://sci-hub.se/10.1000/abc456'' then Inr (example_page [2])
      else if url = ''https://sci-hub.se/10.1000/blank'' then Inr (example_page [])
      else if url = ''https://sci-hub.se/10.1000/gone'' then Inr (example_page [3])
      else if url = ''https://cdn.example/gone.pdf'' then Inr (example_status 404)
      else if url = ''https://sci-hub.se/10.1000/down'' then Inr (example_status 503)
      else if url = ''https://sci-hub.st/10.1000/down'' then Inr (example_status 404)
      else if url = ''https://sci-hub.se/10.1000/badlen'' then Inr (example_page [4])
      else if url = ''https://cdn.example/badlen.pdf'' then Inr (example_file ''12a'' [[37]])
      else if url = ''https://sci-hub.st/10.1000/badlen'' then Inr (example_status 404)
      else Inl (Exn (OtherException ''ConnectionError'') ''Max retries exceeded''))"

definition example_xpath_eval :: "byte list \<Rightarrow> string \<Rightarrow> exn + string list" where
  "example_xpath_eval root expr =
     (if root = [1] then Inr [''//cdn.example/xyz123.pdf'']
      else if root = [3] then Inr [''//cdn.example/gone.pdf'']
      else if root = [4] then Inr [''https://cdn.example/badlen.pdf'']
      else Inr [])"

text \<open>Decimal digits only; the example needs no sign and no white space.\<close>

definition example_int :: "string \<Rightarrow> string + int" where
  "example_int v =
     (if v \<noteq> [] \<and> list_all (\<lambda>c. 48 \<le> (of_char c :: nat) \<and> (of_char c :: nat) \<le> 57) v
      then Inr (foldl (\<lambda>a c. 10 * a + (int (of_char c) - 48)) 0 v)
      else Inl (''invalid literal for int() with base 10: '' @ [CHR 0x27] @ v @ [CHR 0x27]))"

definition example_lib :: "(byte list) lib" where
  "example_lib =
     \<lparr>http_get = example_http_get,
      etree_HTML = (\<lambda>body. if body = [] then Inr None else Inr (Some body)),
      xpath_eval = example_xpath_eval,
      py_int = example_int,
      fmt_kb = (\<lambda>n. Inr ''0.00''),
      open_wb = (\<lambda>path. None),
      open_a = (\<lambda>path. None),
      path_join = (\<lambda>a b. a @ ''/'' @ b)\<rparr>"

definition example_lib_nolog :: "(byte list) lib" where
  "example_lib_nolog =
     example_lib\<lparr>open_a :=
       (\<lambda>path. Some (Exn (OtherException ''IsADirectoryError'')
                     (''[Errno 21] Is a directory: '' @ [CHR 0x27] @ path @ [CHR 0x27])))\<rparr>"

definition example_self :: downloader where
  "example_self =
     \<lparr>download_path = ''downloads'',
      xpath = ''//embed[@type='' @ [CHR 0x22] @ ''application/pdf'' @ [CHR 0x22] @ '']/@src'',
      scihub_urls = [''https://sci-hub.se/'', ''https://sci-hub.st/''],
      doilist = [''10.1000/xyz123'', ''10.1000/abc456'']\<rparr>"

definition example_world :: world where
  "example_world = \<lparr>stdout = [], errlog = [], files = (\<lambda>path. None), requested = []\<rparr>"

section \<open>Properties\<close>

subsection \<open>URL normalisation\<close>

lemma startswith_iff_append: "startswith s p \<longleftrightarrow> (\<exists>rest. s = p @ rest)"
  by (induction s p rule: startswith.induct) auto

text \<open>
  Claim C7. For every string \<open>url\<close>, \<open>ensure_scheme\<close> returns \<open>url\<close> unchanged when it
  starts with \<open>http\<close>, and \<open>https:\<close> followed by \<open>url\<close> when it does not.
\<close>

theorem ensure_scheme_spec:
  "((\<exists>rest. url = ''http'' @ rest) \<longrightarrow> ensure_scheme url = url) \<and>
   (\<not> (\<exists>rest. url = ''http'' @ rest) \<longrightarrow> ensure_scheme url = ''https:'' @ url)"
  unfolding ensure_scheme_def startswith_iff_append by simp

theorem ensure_scheme_spec_witness:
  "ensure_scheme ''//sci-hub.se/a.pdf'' = ''https://sci-hub.se/a.pdf'' \<and>
   ensure_scheme ''http://sci-hub.se/a.pdf'' = ''http://sci-hub.se/a.pdf''"
proof -
  have no: "\<not> (\<exists>rest. ''//sci-hub.se/a.pdf'' = ''http'' @ rest)" by simp
  have yes: "\<exists>rest. ''http://sci-hub.se/a.pdf'' = ''http'' @ rest" by simp
  from ensure_scheme_spec [of "''//sci-hub.se/a.pdf''"] no
  have a: "ensure_scheme ''//sci-hub.se/a.pdf'' = ''https:'' @ ''//sci-hub.se/a.pdf''" by blast
  from ensure_scheme_spec [of "''http://sci-hub.se/a.pdf''"] yes
  have b: "ensure_scheme ''http://sci-hub.se/a.pdf'' = ''http://sci-hub.se/a.pdf''" by blast
  from a b show ?thesis by simp
qed

subsection \<open>File names\<close>

lemma re_sub_class_length: "length (re_sub_class s) = length s"
  by (simp add: re_sub_class_def)

lemma re_sub_class_clean: "c \<in> set (re_sub_class s) \<Longrightarrow> c \<notin> set class_chars"
  by (auto simp: re_sub_class_def class_chars_def)

lemma re_sub_class_id: "set s \<inter> set class_chars = {} \<Longrightarrow> re_sub_class s = s"
  unfolding re_sub_class_def by (induction s) auto

lemma re_sub_class_append: "re_sub_class (a @ b) = re_sub_class a @ re_sub_class b"
  by (simp add: re_sub_class_def)

lemma re_sub_class_idem: "re_sub_class (re_sub_class s) = re_sub_class s"
  by (rule re_sub_class_id) (use re_sub_class_clean in blast)

lemma re_sub_class_pdf: "re_sub_class ''.pdf'' = ''.pdf''"
  by (simp add: re_sub_class_def class_chars_def)

text \<open>
  Claim C3, as stated, asks that applying \<open>sanitize_filename\<close> twice gives the same name
  as applying it once, and that the backslash is replaced. The method appends \<open>.pdf\<close>
  on every call, so the second call gives a different name; and the backslash is not in
  the character class of the pattern, so an identifier that holds one keeps it.
\<close>

theorem sanitize_filename_twice_counterexample:
  "sanitize_filename (sanitize_filename ''10.1000/xyz123'') \<noteq> sanitize_filename ''10.1000/xyz123'' \<and>
   sanitize_filename [CHR ''a'', CHR 0x5C, CHR ''b''] = [CHR ''a'', CHR 0x5C, CHR ''b''] @ ''.pdf''"
  by (simp add: sanitize_filename_def re_sub_class_def class_chars_def)

text \<open>
  Claim C3, amended. \<open>sanitize_filename\<close> is total; its result is as long as the
  identifier plus the four characters of \<open>.pdf\<close>, which end it; every character among
  \<^verbatim>\<open>/ : * ? " < > |\<close> is replaced by an underscore and every character that is neither
  among them nor the backslash is kept; a second application leaves the first result
  unchanged up to one more \<open>.pdf\<close> at the end.
\<close>

theorem sanitize_filename_spec:
  "length (sanitize_filename doi) = length doi + 4 \<and>
   drop (length doi) (sanitize_filename doi) = ''.pdf'' \<and>
   (\<forall>i < length doi.
      (doi ! i \<in> set class_chars \<longrightarrow> sanitize_filename doi ! i = CHR ''_'') \<and>
      (doi ! i \<notin> set class_chars \<and> doi ! i \<noteq> CHR 0x5C \<longrightarrow>
         sanitize_filename doi ! i = doi ! i)) \<and>
   sanitize_filename (sanitize_filename doi) = sanitize_filename doi @ ''.pdf''"
proof -
  have len: "length (sanitize_filename doi) = length doi + 4"
    by (simp add: sanitize_filename_def re_sub_class_length)
  have suffix: "drop (length doi) (sanitize_filename doi) = ''.pdf''"
    by (simp add: sanitize_filename_def re_sub_class_length)
  have chars: "\<forall>i < length doi.
      (doi ! i \<in> set class_chars \<longrightarrow> sanitize_filename doi ! i = CHR ''_'') \<and>
      (doi ! i \<notin> set class_chars \<and> doi ! i \<noteq> CHR 0x5C \<longrightarrow>
         sanitize_filename doi ! i = doi ! i)"
    by (simp add: sanitize_filename_def re_sub_class_def nth_append)
  have twice: "sanitize_filename (sanitize_filename doi) = sanitize_filename doi @ ''.pdf''"
    by (simp add: sanitize_filename_def re_sub_class_append re_sub_class_idem re_sub_class_pdf)
  from len suffix chars twice show ?thesis by blast
qed

theorem sanitize_filename_spec_witness:
  "sanitize_filename ''10.1000/xyz123'' ! 7 = CHR ''_'' \<and>
   sanitize_filename ''10.1000/xyz123'' ! 0 = CHR ''1'' \<and>
   length (sanitize_filename ''10.1000/xyz123'') = 18 \<and>
   sanitize_filename (sanitize_filename ''10.1000/xyz123'') = ''10.1000_xyz123.pdf.pdf''"
proof -
  note t = sanitize_filename_spec [of "''10.1000/xyz123''"]
  have i7: "(7::nat) < length ''10.1000/xyz123''" and i0: "(0::nat) < length ''10.1000/xyz123''"
    by simp_all
  have c7: "''10.1000/xyz123'' ! 7 \<in> set class_chars" by (simp add: class_chars_def)
  have c0: "''10.1000/xyz123'' ! 0 \<notin> set class_chars \<and> ''10.1000/xyz123'' ! 0 \<noteq> CHR 0x5C"
    by (simp add: class_chars_def)
  from t i7 c7 have a: "sanitize_filename ''10.1000/xyz123'' ! 7 = CHR ''_''" by blast
  from t i0 c0 have b: "sanitize_filename ''10.1000/xyz123'' ! 0 = ''10.1000/xyz123'' ! 0"
    by blast
  from t have c: "length (sanitize_filename ''10.1000/xyz123'') = length ''10.1000/xyz123'' + 4"
    by blast
  from t have d: "sanitize_filename (sanitize_filename ''10.1000/xyz123'')
                  = sanitize_filename ''10.1000/xyz123'' @ ''.pdf''"
    by blast
  have e: "sanitize_filename ''10.1000/xyz123'' = ''10.1000_xyz123.pdf''"
    by (simp add: sanitize_filename_def re_sub_class_def class_chars_def)
  from a b c d e show ?thesis by simp
qed

subsection \<open>The identifier list\<close>

lemma concat_readlines_from: "concat (readlines_from cur s) = cur @ s"
  by (induction s arbitrary: cur) auto

lemma readlines_from_nonempty: "l \<in> set (readlines_from cur s) \<Longrightarrow> l \<noteq> []"
  by (induction s arbitrary: cur) (auto split: if_splits)

lemma lstrip_decomp: "\<exists>a. s = a @ lstrip s \<and> (\<forall>c \<in> set a. isspace c)"
proof -
  have "s = takeWhile isspace s @ lstrip s" by (simp add: lstrip_def)
  moreover have "\<forall>c \<in> set (takeWhile isspace s). isspace c"
    by (auto dest: set_takeWhileD)
  ultimately show ?thesis by blast
qed

lemma rstrip_decomp: "\<exists>b. s = rstrip s @ b \<and> (\<forall>c \<in> set b. isspace c)"
proof -
  have "rev (takeWhile isspace (rev s) @ dropWhile isspace (rev s)) = rev (rev s)"
    by (simp only: takeWhile_dropWhile_id)
  then have "s = rstrip s @ rev (takeWhile isspace (rev s))"
    by (simp only: rev_append rev_rev_ident rstrip_def)
  moreover have "\<forall>c \<in> set (rev (takeWhile isspace (rev s))). isspace c"
    by (auto dest: set_takeWhileD)
  ultimately show ?thesis by blast
qed

lemma strip_decomp:
  "\<exists>a b. s = a @ strip s @ b \<and> (\<forall>c \<in> set a. isspace c) \<and> (\<forall>c \<in> set b. isspace c)"
proof -
  obtain a where a: "s = a @ lstrip s" "\<forall>c \<in> set a. isspace c"
    using lstrip_decomp by blast
  obtain b where b: "lstrip s = rstrip (lstrip s) @ b" "\<forall>c \<in> set b. isspace c"
    using rstrip_decomp by blast
  from a(1) b(1) have "s = a @ strip s @ b" by (simp add: strip_def)
  with a(2) b(2) show ?thesis by blast
qed

lemma rstrip_last: "rstrip s \<noteq> [] \<Longrightarrow> \<not> isspace (last (rstrip s))"
proof -
  assume ne: "rstrip s \<noteq> []"
  then have ne': "dropWhile isspace (rev s) \<noteq> []" by (simp add: rstrip_def)
  then have "\<not> isspace (hd (dropWhile isspace (rev s)))" by (rule hd_dropWhile)
  with ne' show ?thesis by (simp add: rstrip_def last_rev)
qed

lemma lstrip_hd: "lstrip s \<noteq> [] \<Longrightarrow> \<not> isspace (hd (lstrip s))"
  by (simp add: lstrip_def hd_dropWhile)

lemma rstrip_hd: "rstrip s \<noteq> [] \<Longrightarrow> hd (rstrip s) = hd s"
proof -
  assume ne: "rstrip s \<noteq> []"
  obtain b where b: "s = rstrip s @ b" using rstrip_decomp by blast
  then have "hd s = hd (rstrip s @ b)" by simp
  with ne show ?thesis by simp
qed

lemma strip_ends:
  "strip s \<noteq> [] \<Longrightarrow> \<not> isspace (hd (strip s)) \<and> \<not> isspace (last (strip s))"
proof -
  assume ne: "strip s \<noteq> []"
  then have r: "rstrip (lstrip s) \<noteq> []" by (simp add: strip_def)
  then have l: "lstrip s \<noteq> []" by (auto simp: rstrip_def)
  from l have h: "\<not> isspace (hd (lstrip s))" by (rule lstrip_hd)
  from r have "hd (strip s) = hd (lstrip s)" by (simp add: strip_def rstrip_hd)
  with h have "\<not> isspace (hd (strip s))" by simp
  moreover from r have "\<not> isspace (last (strip s))" by (simp add: strip_def rstrip_last)
  ultimately show ?thesis by blast
qed

lemma strip_blank: "\<forall>c \<in> set s. isspace c \<Longrightarrow> strip s = []"
proof -
  assume "\<forall>c \<in> set s. isspace c"
  then have "lstrip s = []" by (simp add: lstrip_def)
  then show ?thesis by (simp add: strip_def rstrip_def)
qed

text \<open>
  Claim C8, as stated, restricts the returned sequence to the non-empty trimmed lines.
  The comprehension has no filter: a file with an empty second line gives a sequence
  with an empty string in second place.
\<close>

theorem load_doi_list_keeps_blank_counterexample:
  "load_doi_list example_open_r ''doi_list.txt'' = Inr [''10.1000/xyz123'', [], ''10.1000/abc456'']"
  by (simp add: load_doi_list_def example_open_r_def example_list_text_def readlines_def
      strip_def lstrip_def rstrip_def isspace_def LF_def)

text \<open>
  Claim C8, amended. For every readable input file, \<open>load_doi_list\<close> returns one entry
  for every line of the file, in input order (the lines put together are the text of the
  file): the line without its leading and trailing white space. An entry that is not
  empty neither starts nor ends with white space, and a line of white space only (an
  empty line too) gives the empty string; no entry is dropped.
\<close>

theorem load_doi_list_spec:
  assumes "open_r doi_list_file = Inr txt"
  shows "load_doi_list open_r doi_list_file = Inr (map strip (readlines txt)) \<and>
         concat (readlines txt) = txt \<and>
         (\<forall>l \<in> set (readlines txt).
            (\<exists>a b. l = a @ strip l @ b \<and> (\<forall>c \<in> set a. isspace c) \<and> (\<forall>c \<in> set b. isspace c)) \<and>
            (strip l \<noteq> [] \<longrightarrow> \<not> isspace (hd (strip l)) \<and> \<not> isspace (last (strip l))) \<and>
            ((\<forall>c \<in> set l. isspace c) \<longrightarrow> strip l = []))"
  using assms
  by (simp add: load_doi_list_def readlines_def concat_readlines_from strip_decomp strip_ends
      strip_blank)

theorem load_doi_list_spec_witness:
  "example_open_r ''doi_list.txt'' = Inr example_list_text \<and>
   load_doi_list example_open_r ''doi_list.txt'' = Inr (map strip (readlines example_list_text)) \<and>
   map strip (readlines example_list_text) = [''10.1000/xyz123'', [], ''10.1000/abc456'']"
proof -
  have opened: "example_open_r ''doi_list.txt'' = Inr example_list_text"
    by (simp add: example_open_r_def)
  have "load_doi_list example_open_r ''doi_list.txt''
        = Inr (map strip (readlines example_list_text))"
    using load_doi_list_spec [of example_open_r "''doi_list.txt''" example_list_text] opened
    by blast
  moreover have "map strip (readlines example_list_text)
                 = [''10.1000/xyz123'', [], ''10.1000/abc456'']"
    by (simp add: example_list_text_def readlines_def strip_def lstrip_def rstrip_def
        isspace_def LF_def)
  ultimately show ?thesis using opened by simp
qed

subsection \<open>The streamed body\<close>

lemma write_chunks_eq: "write_chunks chunks out = out @ concat (filter (\<lambda>c. c \<noteq> []) chunks)"
  by (induction chunks arbitrary: out) auto

lemma concat_nonempty: "concat (filter (\<lambda>c. c \<noteq> []) chunks) = concat chunks"
  by (induction chunks) auto

lemmas example_defs = example_lib_def example_lib_nolog_def example_self_def example_world_def
  example_http_get_def example_xpath_eval_def example_int_def example_page_def
  example_status_def example_file_def

text \<open>
  Claim C9. For every sequence of chunks that the streamed response yields, the bytes
  written to the output file are the concatenation, in order, of the chunks that are not
  empty; the empty chunks are skipped, and what is written is the byte sequence of the
  stream. The file is opened anew, so these bytes are its whole content.
\<close>

theorem write_chunks_spec:
  "write_chunks chunks [] = concat (filter (\<lambda>c. c \<noteq> []) chunks) \<and>
   write_chunks chunks [] = concat chunks \<and>
   (open_wb L (path_join L (download_path self) file_name) = None \<longrightarrow>
      files (fst (save_body L self file_name response w))
        (path_join L (download_path self) file_name)
      = Some (concat (body_chunks response)))"
  by (simp add: write_chunks_eq concat_nonempty save_body_def Let_def)

theorem write_chunks_spec_witness:
  "open_wb example_lib (path_join example_lib (download_path example_self) ''10.1000_xyz123.pdf'')
     = None \<and>
   files (fst (save_body example_lib example_self ''10.1000_xyz123.pdf''
                 (example_file ''5'' [[37, 80], [], [68, 70, 10]]) example_world))
     ''downloads/10.1000_xyz123.pdf''
   = Some [37, 80, 68, 70, 10]"
proof -
  have opened: "open_wb example_lib
      (path_join example_lib (download_path example_self) ''10.1000_xyz123.pdf'') = None"
    by (simp add: example_defs)
  have path: "path_join example_lib (download_path example_self) ''10.1000_xyz123.pdf''
      = ''downloads/10.1000_xyz123.pdf''"
    by (simp add: example_defs)
  have chunks: "concat (body_chunks (example_file ''5'' [[37, 80], [], [68, 70, 10]]))
      = [37, 80, 68, 70, 10]"
    by (simp add: example_defs)
  from write_chunks_spec [where L = example_lib and self = example_self
      and file_name = "''10.1000_xyz123.pdf''"
      and response = "example_file ''5'' [[37, 80], [], [68, 70, 10]]" and w = example_world]
    opened
  have "files (fst (save_body example_lib example_self ''10.1000_xyz123.pdf''
                 (example_file ''5'' [[37, 80], [], [68, 70, 10]]) example_world))
         (path_join example_lib (download_path example_self) ''10.1000_xyz123.pdf'')
        = Some (concat (body_chunks (example_file ''5'' [[37, 80], [], [68, 70, 10]])))"
    by blast
  with opened path chunks show ?thesis by simp
qed

subsection \<open>What one mirror prints and logs\<close>

text \<open>
  Every line that the \<^verbatim>\<open>try\<close> body and the handler print starts with \<open>E\<close> or \<open>D\<close>,
  the last message of \<^verbatim>\<open>download\<close> starts with \<open>F\<close> and the line of \<^verbatim>\<open>run\<close> with
  \<open>S\<close>. A filter that rejects the first letters of a step sees the same lines before
  and after it.
\<close>

lemma get_file_size_filter:
  assumes "\<And>r. \<not> P (CHR ''D'' # r)"
  shows "filter P (stdout (fst (get_file_size L req_file index total_count w))) = filter P (stdout w)"
  using assms by (simp add: get_file_size_def print_def split: option.splits sum.splits)




lemma save_body_stdout: "stdout (fst (save_body L self file_name response w)) = stdout w"
  by (simp add: save_body_def Let_def split: option.splits)



lemma fst_eqD: "p = (a, b) \<Longrightarrow> fst p = a"
  by simp

lemma try_body_filter:
  assumes E: "\<And>r. \<not> P (CHR ''E'' # r)" and D: "\<And>r. \<not> P (CHR ''D'' # r)"
  shows "filter P (stdout (fst (try_body L self index doi scihub_url w))) = filter P (stdout w)"
proof -
  have size: "\<And>req_file w2.
      filter P (stdout (fst (get_file_size L req_file index (length (doilist self)) w2)))
      = filter P (stdout w2)"
    using D by (rule get_file_size_filter)
  show ?thesis
    unfolding try_body_def session_get_def
    using E D size
    apply (simp add: print_def Let_def split: sum.split option.split list.split prod.split)
    apply (auto simp: save_body_stdout dest!: fst_eqD)
    done
qed




lemma except_handler_cases:
  "except_handler L doi u e w =
     (case open_a L ''errlog.txt'' of
        Some e' \<Rightarrow>
          (w\<lparr>stdout := stdout w @ [''Error downloading '' @ doi @ '' from '' @ u @ '': ''
                                     @ exn_text e]\<rparr>,
           Some e')
      | None \<Rightarrow>
          (w\<lparr>stdout := stdout w @ [''Error downloading '' @ doi @ '' from '' @ u @ '': ''
                                     @ exn_text e],
             errlog := errlog w @ doi @ '' from '' @ u @ '' - '' @ exn_text e @ [LF]\<rparr>,
           None))"
  by (simp add: except_handler_def print_def Let_def split: option.splits)

lemma except_handler_filter:
  "(\<And>r. \<not> P (CHR ''E'' # r)) \<Longrightarrow>
   filter P (stdout (fst (except_handler L doi u e w))) = filter P (stdout w)"
  by (simp add: except_handler_cases split: option.splits)




lemma except_handler_no_raise:
  "open_a L ''errlog.txt'' = None \<Longrightarrow> snd (except_handler L doi u e w) = None"
  by (simp add: except_handler_cases)



lemma download_loop_no_raise:
  "open_a L ''errlog.txt'' = None \<Longrightarrow> snd (download_loop L self index doi urls w) = None"
proof (induction urls arbitrary: w)
  case Nil
  show ?case by simp
next
  case (Cons u urls)
  obtain w' r where tb: "try_body L self index doi u w = (w', r)"
    by (cases "try_body L self index doi u w")
  show ?case
  proof (cases r)
    case (Inr f)
    with tb Cons.IH [OF Cons.prems, of w'] show ?thesis by (cases f) simp_all
  next
    case (Inl e)
    obtain w'' x where eh: "except_handler L doi u e w' = (w'', x)"
      by (cases "except_handler L doi u e w'")
    with except_handler_no_raise [OF Cons.prems, of doi u e w'] have "x = None" by simp
    with Inl tb eh Cons.IH [OF Cons.prems, of w''] show ?thesis by simp
  qed
qed

lemma download_loop_filter:
  assumes E: "\<And>r. \<not> P (CHR ''E'' # r)" and D: "\<And>r. \<not> P (CHR ''D'' # r)"
    and F: "\<And>r. \<not> P (CHR ''F'' # r)"
  shows "filter P (stdout (fst (download_loop L self index doi urls w))) = filter P (stdout w)"
proof (induction urls arbitrary: w)
  case Nil
  show ?case using F by (simp add: print_def exhausted_line_def)
next
  case (Cons u urls)
  obtain w' r where tb: "try_body L self index doi u w = (w', r)"
    by (cases "try_body L self index doi u w")
  then have w': "filter P (stdout w') = filter P (stdout w)"
    using try_body_filter [OF E D, of L self index doi u w] by simp
  show ?case
  proof (cases r)
    case (Inr f)
    with tb Cons.IH [of w'] w' show ?thesis by (cases f) simp_all
  next
    case (Inl e)
    obtain w'' x where eh: "except_handler L doi u e w' = (w'', x)"
      by (cases "except_handler L doi u e w'")
    then have "filter P (stdout w'') = filter P (stdout w')"
      using except_handler_filter [of P L doi u e w'] E by simp
    with Inl tb eh Cons.IH [of w''] w' show ?thesis by (cases x) simp_all
  qed
qed

lemma run_loop_starts:
  "snd (run_loop L self index dois w) = None \<Longrightarrow>
   filter is_start_line (stdout (fst (run_loop L self index dois w)))
   = filter is_start_line (stdout w) @ map (\<lambda>d. ''Starting download for DOI: '' @ d) dois"
proof (induction dois arbitrary: index w)
  case Nil
  show ?case by simp
next
  case (Cons d dois)
  let ?w1 = "print w (''Starting download for DOI: '' @ d)"
  obtain w' x where dl: "download L self index d ?w1 = (w', x)"
    by (cases "download L self index d ?w1")
  with Cons.prems have x: "x = None" by (cases x) simp_all
  have "filter is_start_line (stdout (fst (download L self index d ?w1)))
        = filter is_start_line (stdout ?w1)"
    unfolding download_def by (rule download_loop_filter) (simp_all add: is_start_line_def)
  with dl have "filter is_start_line (stdout w') = filter is_start_line (stdout ?w1)" by simp
  also have "\<dots> = filter is_start_line (stdout w) @ [''Starting download for DOI: '' @ d]"
    by (simp add: print_def is_start_line_def startswith_iff_append)
  finally have start: "filter is_start_line (stdout w')
      = filter is_start_line (stdout w) @ [''Starting download for DOI: '' @ d]" .
  from Cons.prems dl x have "snd (run_loop L self (index + 1) dois w') = None" by simp
  from Cons.IH [OF this] dl x start show ?case by simp
qed

lemma run_loop_no_raise:
  "open_a L ''errlog.txt'' = None \<Longrightarrow> snd (run_loop L self index dois w) = None"
proof (induction dois arbitrary: index w)
  case Nil
  show ?case by simp
next
  case (Cons d dois)
  let ?w1 = "print w (''Starting download for DOI: '' @ d)"
  obtain w' x where dl: "download L self index d ?w1 = (w', x)"
    by (cases "download L self index d ?w1")
  with download_loop_no_raise [OF Cons.prems, of self index d "scihub_urls self" ?w1]
  have "x = None" by (simp add: download_def)
  with dl Cons.IH [OF Cons.prems, of "index + 1" w'] show ?case by simp
qed

lemma try_body_exhausted_count:
  "count_list (stdout (fst (try_body L self index doi u w))) (exhausted_line d)
   = count_list (stdout w) (exhausted_line d)"
proof -
  have "filter ((=) (exhausted_line d)) (stdout (fst (try_body L self index doi u w)))
        = filter ((=) (exhausted_line d)) (stdout w)"
    by (rule try_body_filter) (simp_all add: exhausted_line_def)
  then show ?thesis by (simp add: count_list_eq_length_filter)
qed

lemma except_handler_exhausted_count:
  "count_list (stdout (fst (except_handler L doi u e w))) (exhausted_line d)
   = count_list (stdout w) (exhausted_line d)"
  by (simp add: except_handler_cases exhausted_line_def split: option.splits)

lemma download_loop_exhausted_count:
  "count_list (stdout (fst (download_loop L self index doi urls w))) (exhausted_line doi)
   = count_list (stdout w) (exhausted_line doi)
     + (if loop_completes L self index doi urls w then 1 else 0)"
proof (induction urls arbitrary: w)
  case Nil
  show ?case by (simp add: print_def)
next
  case (Cons u urls)
  obtain w' r where tb: "try_body L self index doi u w = (w', r)"
    by (cases "try_body L self index doi u w")
  then have w': "count_list (stdout w') (exhausted_line doi)
      = count_list (stdout w) (exhausted_line doi)"
    using try_body_exhausted_count [of L self index doi u w doi] by simp
  show ?case
  proof (cases r)
    case (Inr f)
    with tb Cons.IH [of w'] w' show ?thesis by (cases f) simp_all
  next
    case (Inl e)
    obtain w'' x where eh: "except_handler L doi u e w' = (w'', x)"
      by (cases "except_handler L doi u e w'")
    then have "count_list (stdout w'') (exhausted_line doi)
        = count_list (stdout w') (exhausted_line doi)"
      using except_handler_exhausted_count [of L doi u e w' doi] by simp
    with Inl tb eh Cons.IH [of w''] w' show ?thesis by (cases x) simp_all
  qed
qed

lemma loop_completes_no_raise:
  "loop_completes L self index doi urls w \<Longrightarrow> snd (download_loop L self index doi urls w) = None"
proof (induction urls arbitrary: w)
  case Nil
  show ?case by simp
next
  case (Cons u urls)
  obtain w' r where tb: "try_body L self index doi u w = (w', r)"
    by (cases "try_body L self index doi u w")
  show ?case
  proof (cases r)
    case (Inr f)
    with tb Cons.prems Cons.IH [of w'] show ?thesis by (cases f) simp_all
  next
    case (Inl e)
    obtain w'' x where eh: "except_handler L doi u e w' = (w'', x)"
      by (cases "except_handler L doi u e w'")
    with Inl tb Cons.prems Cons.IH [of w''] show ?thesis by (cases x) simp_all
  qed
qed

lemma try_body_Continue_iff:
  "snd (try_body L self index doi u w) = Inr Continue \<longleftrightarrow>
   (\<exists>req. fst (session_get L w (u @ doi)) = Inr req \<and> status_code req \<noteq> 200)"
  unfolding try_body_def
  by (auto simp: Let_def split: sum.splits option.splits list.splits prod.splits)

lemma every_page_fetch_non200_completes:
  "every_page_fetch_non200 L self index doi urls w \<Longrightarrow> loop_completes L self index doi urls w"
proof (induction urls arbitrary: w)
  case Nil
  show ?case by simp
next
  case (Cons u urls)
  from Cons.prems obtain req where req: "fst (session_get L w (u @ doi)) = Inr req"
    "status_code req \<noteq> 200"
    and rest: "every_page_fetch_non200 L self index doi urls (fst (try_body L self index doi u w))"
    by (auto split: sum.splits)
  from req have "snd (try_body L self index doi u w) = Inr Continue"
    using try_body_Continue_iff [of L self index doi u w] by blast
  then obtain w' where tb: "try_body L self index doi u w = (w', Inr Continue)"
    by (cases "try_body L self index doi u w") simp
  with rest Cons.IH [of w'] show ?case by simp
qed

subsection \<open>Where the body of the try statement raises\<close>

lemma try_body_raises_fetch:
  "fst (session_get L w (scihub_url @ doi)) = Inl e \<Longrightarrow>
   snd (try_body L self index doi scihub_url w) = Inl e"
  by (cases "session_get L w (scihub_url @ doi)") (simp add: try_body_def)

lemma try_body_raises_parse:
  "session_get L w (scihub_url @ doi) = (Inr req, w1) \<Longrightarrow> status_code req = 200 \<Longrightarrow>
   etree_HTML L (content req) = Inl e \<Longrightarrow>
   try_body L self index doi scihub_url w = (w1, Inl e)"
  by (simp add: try_body_def)

lemma try_body_raises_stream:
  "session_get L w (scihub_url @ doi) = (Inr req, w1) \<Longrightarrow> status_code req = 200 \<Longrightarrow>
   etree_HTML L (content req) = Inr (Some root) \<Longrightarrow>
   xpath_eval L root (xpath self) = Inr (link # links) \<Longrightarrow>
   session_get L w1 (ensure_scheme link) = (Inr req_file, w2) \<Longrightarrow> status_code req_file = 200 \<Longrightarrow>
   get_file_size L req_file index (length (doilist self)) w2 = (w3, Inr n) \<Longrightarrow>
   save_body L self (sanitize_filename doi) req_file w3 = (w4, Some e) \<Longrightarrow>
   try_body L self index doi scihub_url w = (w4, Inl e)"
  by (simp add: try_body_def)




subsection \<open>The loop over the mirrors\<close>

text \<open>
  Claim C1. For every identifier, a status other than 200 on the first GET of a mirror
  makes \<open>download\<close> go on with the next mirror of the list, while a page that does not
  parse, a query without a match and a status other than 200 on the GET of the file each
  end \<open>download\<close> at once, with no exception: the world it returns does not depend on
  the mirrors that remain. The batch goes on: when \<open>download\<close> returns, \<open>run\<close> goes on
  with the next identifier, and a run that no exception leaves has started every
  identifier of the list, in order; no exception leaves a run whose log can be opened.
\<close>

theorem download_step_asymmetry:
  assumes fetch: "session_get L w (scihub_url @ doi) = (Inr req, w1)"
  shows
  "(status_code req \<noteq> 200 \<longrightarrow>
      download_loop L self index doi (scihub_url # urls) w =
      download_loop L self index doi urls
        (print w1 (''Error downloading '' @ doi @ '': Failed to fetch the webpage from ''
                   @ scihub_url @ '', status code: '' @ str_int (status_code req)))) \<and>
   (status_code req = 200 \<and> etree_HTML L (content req) = Inr None \<longrightarrow>
      download_loop L self index doi (scihub_url # urls) w =
      (print w1 (''Error downloading '' @ doi @ '': Failed to parse HTML content''), None)) \<and>
   (status_code req = 200 \<and> etree_HTML L (content req) = Inr (Some root) \<and>
    xpath_eval L root (xpath self) = Inr [] \<longrightarrow>
      download_loop L self index doi (scihub_url # urls) w =
      (print w1 (''Error downloading '' @ doi @ '': No download link found''), None)) \<and>
   (status_code req = 200 \<and> etree_HTML L (content req) = Inr (Some root) \<and>
    xpath_eval L root (xpath self) = Inr (link # links) \<and>
    session_get L w1 (ensure_scheme link) = (Inr req_file, w2) \<and> status_code req_file \<noteq> 200 \<longrightarrow>
      download_loop L self index doi (scihub_url # urls) w =
      (print w2 (''Error downloading '' @ doi @ '': Failed to retrieve file, status code: ''
                 @ str_int (status_code req_file)), None)) \<and>
   (download L self index doi (print w0 (''Starting download for DOI: '' @ doi)) = (wr, None) \<longrightarrow>
      run_loop L self index (doi # dois) w0 = run_loop L self (index + 1) dois wr) \<and>
   (snd (run L self w0) = None \<longrightarrow>
      filter is_start_line (stdout (fst (run L self w0)))
      = filter is_start_line (stdout w0)
        @ map (\<lambda>d. ''Starting download for DOI: '' @ d) (doilist self)) \<and>
   (open_a L ''errlog.txt'' = None \<longrightarrow> snd (run L self w0) = None)"
  using fetch by (simp add: try_body_def run_def run_loop_starts run_loop_no_raise)

theorem download_step_asymmetry_witness:
  "download_loop example_lib example_self 0 ''10.1000/down''
     [''https://sci-hub.se/'', ''https://sci-hub.st/''] example_world
   = download_loop example_lib example_self 0 ''10.1000/down'' [''https://sci-hub.st/'']
       (print (example_world\<lparr>requested := [''https://sci-hub.se/10.1000/down'']\<rparr>)
          ''Error downloading 10.1000/down: Failed to fetch the webpage from https://sci-hub.se/, status code: 503'') \<and>
   download_loop example_lib example_self 0 ''10.1000/blank''
     [''https://sci-hub.se/'', ''https://sci-hub.st/''] example_world
   = (print (example_world\<lparr>requested := [''https://sci-hub.se/10.1000/blank'']\<rparr>)
        ''Error downloading 10.1000/blank: Failed to parse HTML content'', None) \<and>
   download_loop example_lib example_self 0 ''10.1000/abc456''
     [''https://sci-hub.se/'', ''https://sci-hub.st/''] example_world
   = (print (example_world\<lparr>requested := [''https://sci-hub.se/10.1000/abc456'']\<rparr>)
        ''Error downloading 10.1000/abc456: No download link found'', None) \<and>
   download_loop example_lib example_self 0 ''10.1000/gone''
     [''https://sci-hub.se/'', ''https://sci-hub.st/''] example_world
   = (print (example_world\<lparr>requested := [''https://sci-hub.se/10.1000/gone'',
                                               ''https://cdn.example/gone.pdf'']\<rparr>)
        ''Error downloading 10.1000/gone: Failed to retrieve file, status code: 404'', None) \<and>
   snd (run example_lib example_self example_world) = None \<and>
   filter is_start_line (stdout (fst (run example_lib example_self example_world)))
   = [''Starting download for DOI: 10.1000/xyz123'', ''Starting download for DOI: 10.1000/abc456'']"
proof -
  let ?se = "''https://sci-hub.se/''" and ?st = "''https://sci-hub.st/''"
  have down: "session_get example_lib example_world (?se @ ''10.1000/down'')
      = (Inr (example_status 503), example_world\<lparr>requested := [''https://sci-hub.se/10.1000/down'']\<rparr>)"
    by (simp add: session_get_def example_defs)
  have down_status: "status_code (example_status 503) \<noteq> 200"
    by (simp add: example_status_def)
  have str503: "str_int 503 = ''503''" by code_simp
  have a: "download_loop example_lib example_self 0 ''10.1000/down'' (?se # [?st]) example_world
     = download_loop example_lib example_self 0 ''10.1000/down'' [?st]
         (print (example_world\<lparr>requested := [''https://sci-hub.se/10.1000/down'']\<rparr>)
            (''Error downloading '' @ ''10.1000/down'' @ '': Failed to fetch the webpage from ''
               @ ?se @ '', status code: '' @ str_int (status_code (example_status 503))))"
    using download_step_asymmetry [OF down, where self = example_self and index = 0
        and urls = "[?st]"] down_status
    by blast
  have blank: "session_get example_lib example_world (?se @ ''10.1000/blank'')
      = (Inr (example_page []), example_world\<lparr>requested := [''https://sci-hub.se/10.1000/blank'']\<rparr>)"
    by (simp add: session_get_def example_defs)
  have blank_parse: "status_code (example_page []) = 200 \<and>
      etree_HTML example_lib (content (example_page [])) = Inr None"
    by (simp add: example_defs)
  have b: "download_loop example_lib example_self 0 ''10.1000/blank'' (?se # [?st]) example_world
     = (print (example_world\<lparr>requested := [''https://sci-hub.se/10.1000/blank'']\<rparr>)
          (''Error downloading '' @ ''10.1000/blank'' @ '': Failed to parse HTML content''), None)"
    using download_step_asymmetry [OF blank, where self = example_self and index = 0
        and urls = "[?st]"] blank_parse
    by blast
  have nolink: "session_get example_lib example_world (?se @ ''10.1000/abc456'')
      = (Inr (example_page [2]), example_world\<lparr>requested := [''https://sci-hub.se/10.1000/abc456'']\<rparr>)"
    by (simp add: session_get_def example_defs)
  have nolink_parse: "status_code (example_page [2]) = 200 \<and>
      etree_HTML example_lib (content (example_page [2])) = Inr (Some [2]) \<and>
      xpath_eval example_lib [2] (xpath example_self) = Inr []"
    by (simp add: example_defs)
  have c: "download_loop example_lib example_self 0 ''10.1000/abc456'' (?se # [?st]) example_world
     = (print (example_world\<lparr>requested := [''https://sci-hub.se/10.1000/abc456'']\<rparr>)
          (''Error downloading '' @ ''10.1000/abc456'' @ '': No download link found''), None)"
    using download_step_asymmetry [OF nolink, where self = example_self and index = 0
        and urls = "[?st]" and root = "[2]"] nolink_parse
    by blast
  have gone: "session_get example_lib example_world (?se @ ''10.1000/gone'')
      = (Inr (example_page [3]), example_world\<lparr>requested := [''https://sci-hub.se/10.1000/gone'']\<rparr>)"
    by (simp add: session_get_def example_defs)
  have gone_file: "status_code (example_page [3]) = 200 \<and>
      etree_HTML example_lib (content (example_page [3])) = Inr (Some [3]) \<and>
      xpath_eval example_lib [3] (xpath example_self) = Inr (''//cdn.example/gone.pdf'' # []) \<and>
      session_get example_lib (example_world\<lparr>requested := [''https://sci-hub.se/10.1000/gone'']\<rparr>)
        (ensure_scheme ''//cdn.example/gone.pdf'')
      = (Inr (example_status 404),
         example_world\<lparr>requested := [''https://sci-hub.se/10.1000/gone'',
                                        ''https://cdn.example/gone.pdf'']\<rparr>) \<and>
      status_code (example_status 404) \<noteq> 200"
    by (simp add: session_get_def ensure_scheme_def example_defs)
  have str404: "str_int 404 = ''404''" by code_simp
  have d: "download_loop example_lib example_self 0 ''10.1000/gone'' (?se # [?st]) example_world
     = (print (example_world\<lparr>requested := [''https://sci-hub.se/10.1000/gone'',
                                               ''https://cdn.example/gone.pdf'']\<rparr>)
          (''Error downloading '' @ ''10.1000/gone'' @ '': Failed to retrieve file, status code: ''
             @ str_int (status_code (example_status 404))), None)"
    using download_step_asymmetry [OF gone, where self = example_self and index = 0
        and urls = "[?st]" and root = "[3]" and link = "''//cdn.example/gone.pdf''"
        and links = "[]" and req_file = "example_status 404"
        and ?w2.0 = "example_world\<lparr>requested := [''https://sci-hub.se/10.1000/gone'',
                                                      ''https://cdn.example/gone.pdf'']\<rparr>"]
      gone_file
    by blast
  have log: "open_a example_lib ''errlog.txt'' = None" by (simp add: example_defs)
  have quiet: "snd (run example_lib example_self example_world) = None"
    using download_step_asymmetry [OF down, where self = example_self
        and ?w0.0 = example_world] log
    by blast
  have "filter is_start_line (stdout (fst (run example_lib example_self example_world)))
      = filter is_start_line (stdout example_world)
        @ map (\<lambda>d. ''Starting download for DOI: '' @ d) (doilist example_self)"
    using download_step_asymmetry [OF down, where self = example_self
        and ?w0.0 = example_world] quiet
    by blast
  then have e: "filter is_start_line (stdout (fst (run example_lib example_self example_world)))
      = [''Starting download for DOI: 10.1000/xyz123'', ''Starting download for DOI: 10.1000/abc456'']"
    by (simp add: example_self_def example_world_def)
  from a b c d quiet e str503 str404 show ?thesis by (simp add: example_status_def)
qed




text \<open>
  Claim C5. For every identifier whose page parses and in which the query finds no
  match, \<open>download\<close> writes no file, appends nothing to the error log, and prints the
  one line that reports the missing link; it returns, and no exception leaves it, after
  the single request.
\<close>

theorem download_no_link:
  assumes fetch: "session_get L w (scihub_url @ doi) = (Inr req, w1)"
    and ok: "status_code req = 200"
    and parsed: "etree_HTML L (content req) = Inr (Some root)"
    and no_link: "xpath_eval L root (xpath self) = Inr []"
  shows "files (fst (download_loop L self index doi (scihub_url # urls) w)) = files w \<and>
         errlog (fst (download_loop L self index doi (scihub_url # urls) w)) = errlog w \<and>
         stdout (fst (download_loop L self index doi (scihub_url # urls) w))
           = stdout w @ [''Error downloading '' @ doi @ '': No download link found''] \<and>
         requested (fst (download_loop L self index doi (scihub_url # urls) w))
           = requested w @ [scihub_url @ doi] \<and>
         snd (download_loop L self index doi (scihub_url # urls) w) = None"
proof -
  from fetch have w1: "w1 = w\<lparr>requested := requested w @ [scihub_url @ doi]\<rparr>"
    by (simp add: session_get_def)
  from fetch ok parsed no_link
  have "download_loop L self index doi (scihub_url # urls) w
        = (print w1 (''Error downloading '' @ doi @ '': No download link found''), None)"
    by (simp add: try_body_def)
  with w1 show ?thesis by (simp add: print_def)
qed

theorem download_no_link_witness:
  "stdout (fst (download example_lib example_self 1 ''10.1000/abc456'' example_world))
     = [''Error downloading 10.1000/abc456: No download link found''] \<and>
   errlog (fst (download example_lib example_self 1 ''10.1000/abc456'' example_world)) = [] \<and>
   files (fst (download example_lib example_self 1 ''10.1000/abc456'' example_world))
     = (\<lambda>path. None) \<and>
   requested (fst (download example_lib example_self 1 ''10.1000/abc456'' example_world))
     = [''https://sci-hub.se/10.1000/abc456''] \<and>
   snd (download example_lib example_self 1 ''10.1000/abc456'' example_world) = None"
proof -
  have fetch: "session_get example_lib example_world (''https://sci-hub.se/'' @ ''10.1000/abc456'')
      = (Inr (example_page [2]), example_world\<lparr>requested := [''https://sci-hub.se/10.1000/abc456'']\<rparr>)"
    by (simp add: session_get_def example_defs)
  have ok: "status_code (example_page [2]) = 200" by (simp add: example_defs)
  have parsed: "etree_HTML example_lib (content (example_page [2])) = Inr (Some [2])"
    by (simp add: example_defs)
  have no_link: "xpath_eval example_lib [2] (xpath example_self) = Inr []"
    by (simp add: example_defs)
  have urls: "scihub_urls example_self = ''https://sci-hub.se/'' # [''https://sci-hub.st/'']"
    by (simp add: example_self_def)
  from download_no_link [OF fetch ok parsed no_link, where index = 1
      and urls = "[''https://sci-hub.st/'']"] urls
  show ?thesis by (simp add: download_def example_world_def)
qed

text \<open>
  Claim C6, as stated, has the last message printed only when the first GET of every
  mirror returned a status other than 200. When the connection to both mirrors fails,
  no first GET returns a status at all, the handler catches both exceptions, and the
  message is printed.
\<close>

theorem exhausted_without_status_counterexample:
  "count_list (stdout (fst (download example_lib example_self 0 ''10.1000/offline'' example_world)))
     (exhausted_line ''10.1000/offline'') = 1 \<and>
   \<not> every_page_fetch_non200 example_lib example_self 0 ''10.1000/offline''
       (scihub_urls example_self) example_world"
  by (simp add: download_def try_body_def session_get_def except_handler_cases print_def
      exhausted_line_def example_defs)

text \<open>
  Claim C6, amended. For every identifier, the last message (\<^verbatim>\<open>after trying all Sci-Hub
  URLs\<close>) is printed exactly when the loop over the mirrors completes without a
  \<^verbatim>\<open>return\<close>, once, and then no exception leaves \<open>download\<close>; the loop completes
  exactly when every mirror ends either by \<^verbatim>\<open>continue\<close>, which is the case exactly
  when its first GET returns a status other than 200, or by an exception that the
  handler catches and logs. Statuses other than 200 from every mirror are one way to
  complete the loop, not the only one.
\<close>

theorem exhausted_line_spec:
  "count_list (stdout (fst (download L self index doi w))) (exhausted_line doi)
     = count_list (stdout w) (exhausted_line doi)
       + (if loop_completes L self index doi (scihub_urls self) w then 1 else 0) \<and>
   (snd (try_body L self index doi scihub_url w') = Inr Continue \<longleftrightarrow>
      (\<exists>req. fst (session_get L w' (scihub_url @ doi)) = Inr req \<and> status_code req \<noteq> 200)) \<and>
   (every_page_fetch_non200 L self index doi (scihub_urls self) w \<longrightarrow>
      loop_completes L self index doi (scihub_urls self) w) \<and>
   (loop_completes L self index doi (scihub_urls self) w \<longrightarrow>
      snd (download L self index doi w) = None)"
  unfolding download_def
  using download_loop_exhausted_count [of L self index doi "scihub_urls self" w]
    try_body_Continue_iff [of L self index doi scihub_url w']
    every_page_fetch_non200_completes [of L self index doi "scihub_urls self" w]
    loop_completes_no_raise [of L self index doi "scihub_urls self" w]
  by blast

theorem exhausted_line_spec_witness:
  "every_page_fetch_non200 example_lib example_self 0 ''10.1000/down''
     (scihub_urls example_self) example_world \<and>
   loop_completes example_lib example_self 0 ''10.1000/down'' (scihub_urls example_self)
     example_world \<and>
   count_list (stdout (fst (download example_lib example_self 0 ''10.1000/down'' example_world)))
     (exhausted_line ''10.1000/down'') = 1 \<and>
   snd (download example_lib example_self 0 ''10.1000/down'' example_world) = None"
proof -
  have non200: "every_page_fetch_non200 example_lib example_self 0 ''10.1000/down''
     (scihub_urls example_self) example_world"
    by (simp add: try_body_def session_get_def print_def example_defs)
  note t = exhausted_line_spec [of example_lib example_self 0 "''10.1000/down''" example_world]
  from t non200 have completes: "loop_completes example_lib example_self 0 ''10.1000/down''
     (scihub_urls example_self) example_world"
    by blast
  from t completes
  have "count_list (stdout (fst (download example_lib example_self 0 ''10.1000/down'' example_world)))
     (exhausted_line ''10.1000/down'')
     = count_list (stdout example_world) (exhausted_line ''10.1000/down'') + 1"
    by simp
  moreover from t completes
  have "snd (download example_lib example_self 0 ''10.1000/down'' example_world) = None"
    by blast
  ultimately show ?thesis using non200 completes by (simp add: example_world_def)
qed

subsection \<open>The size of the file\<close>




subsection \<open>A concrete run\<close>

text \<open>The identifier found on the first mirror: five bytes on disk, nothing in the log.\<close>

lemma example_download_found:
  "files (fst (download example_lib example_self 0 ''10.1000/xyz123'' example_world))
     ''downloads/10.1000_xyz123.pdf'' = Some [37, 80, 68, 70, 10] \<and>
   stdout (fst (download example_lib example_self 0 ''10.1000/xyz123'' example_world))
     = [''Downloading paper 1/2, size: 0.00 KB'', ''Downloaded 10.1000_xyz123.pdf successfully!''] \<and>
   errlog (fst (download example_lib example_self 0 ''10.1000/xyz123'' example_world)) = [] \<and>
   snd (download example_lib example_self 0 ''10.1000/xyz123'' example_world) = None"
proof -
  have one: "str_nat (Suc 0) = ''1''" and two: "str_nat (Suc (Suc 0)) = ''2''"
    by code_simp+
  show ?thesis
    by (simp add: download_def try_body_def session_get_def get_file_size_def save_body_def
        sanitize_filename_def re_sub_class_def class_chars_def ensure_scheme_def print_def
        one two example_defs)
qed

end
